theory Spec2Isabelle
  imports Complex_Main "HOL-Library.Sublist" "HOL-Library.Log_Nat"
begin

section \<open>JavaScript values\<close>

text \<open>
  The server (\<^verbatim>\<open>src/server/server.js\<close>) and the scan overlay of the client
  (\<^verbatim>\<open>src/unnamed/part_000\<close>) exchange JSON documents. A JavaScript string is
  modelled as a \<^typ>\<open>string\<close> whose characters are UTF-16 code units below 256; a
  number is an exact rational (binary64 rounding and overflow are not modelled).
  An object is the association list of its own properties, in insertion order.
\<close>

datatype json =
    JNull
  | JBool bool
  | JNum rat
  | JStr string
  | JArr "json list"
  | JObj "(string \<times> json) list"

text \<open>A JavaScript value read from a document: \<open>None\<close> is \<^verbatim>\<open>undefined\<close>.\<close>

type_synonym jsval = "json option"

datatype js_error = TypeError

text \<open>Truthiness, as \<^verbatim>\<open>if (v)\<close>, \<^verbatim>\<open>!v\<close>, \<^verbatim>\<open>a && b\<close> and \<^verbatim>\<open>a || b\<close> test it.\<close>

fun truthy :: "jsval \<Rightarrow> bool" where
  "truthy None = False"
| "truthy (Some JNull) = False"
| "truthy (Some (JBool b)) = b"
| "truthy (Some (JNum n)) = (n \<noteq> 0)"
| "truthy (Some (JStr s)) = (s \<noteq> [])"
| "truthy (Some (JArr xs)) = True"
| "truthy (Some (JObj kvs)) = True"

text \<open>
  Property read \<^verbatim>\<open>v.name\<close> on a value that came out of \<^verbatim>\<open>JSON.parse\<close>, for
  the names this program reads (\<^verbatim>\<open>success\<close>, \<^verbatim>\<open>all_results\<close>, \<^verbatim>\<open>summary\<close>,
  \<^verbatim>\<open>total_scanned\<close>, \<^verbatim>\<open>deepfakes_found\<close>, \<^verbatim>\<open>source_url\<close>, \<^verbatim>\<open>prediction\<close>), none
  of which is a property of a built-in prototype: an object answers with its own
  property, \<^verbatim>\<open>null\<close> throws a TypeError, every other value answers \<^verbatim>\<open>undefined\<close>.
\<close>

fun get_prop :: "json \<Rightarrow> string \<Rightarrow> js_error + jsval" where
  "get_prop JNull name = Inl TypeError"
| "get_prop (JObj kvs) name = Inr (map_of kvs name)"
| "get_prop v name = Inr None"

text \<open>Optional chaining \<^verbatim>\<open>v?.name\<close>: \<^verbatim>\<open>undefined\<close> when \<open>v\<close> is nullish.\<close>

fun get_opt_chain :: "jsval \<Rightarrow> string \<Rightarrow> jsval" where
  "get_opt_chain None name = None"
| "get_opt_chain (Some JNull) name = None"
| "get_opt_chain (Some (JObj kvs)) name = map_of kvs name"
| "get_opt_chain (Some v) name = None"

text \<open>Assignment \<^verbatim>\<open>obj[name] = v\<close> on the own properties of an object.\<close>

fun set_prop :: "string \<Rightarrow> json \<Rightarrow> (string \<times> json) list \<Rightarrow> (string \<times> json) list" where
  "set_prop name v [] = [(name, v)]"
| "set_prop name v ((k, w) # kvs) =
     (if k = name then (k, v) # kvs else (k, w) # set_prop name v kvs)"

section \<open>Strings\<close>

text \<open>
  White space as \<^verbatim>\<open>String.prototype.trim\<close> and \<^verbatim>\<open>parseFloat\<close> skip it, among
  the code units below 256: TAB, LF, VT, FF, CR, SP and NBSP.
\<close>

definition is_whitespace :: "char \<Rightarrow> bool" where
  "is_whitespace c = (c \<in> set [CHR 0x09, CHR 0x0A, CHR 0x0B, CHR 0x0C, CHR 0x0D, CHR 0x20, CHR 0xA0])"

text \<open>The characters the regular expression atom \<^verbatim>\<open>.\<close> does not match.\<close>

definition is_line_terminator :: "char \<Rightarrow> bool" where
  "is_line_terminator c = (c = CHR 0x0A \<or> c = CHR 0x0D)"

definition trim :: "string \<Rightarrow> string" where
  "trim s = rev (dropWhile is_whitespace (rev (dropWhile is_whitespace s)))"

text \<open>\<^verbatim>\<open>hay.includes(needle)\<close>: the needle occurs as a contiguous substring.\<close>

fun includes_str :: "string \<Rightarrow> string \<Rightarrow> bool" where
  "includes_str needle [] = (needle = [])"
| "includes_str needle (c # cs) = (prefix needle (c # cs) \<or> includes_str needle cs)"

text \<open>\<^verbatim>\<open>s.startsWith(p) ? s.slice(p.length) : undefined\<close>, the building block of the
  anchored patterns below.\<close>

definition strip_prefix :: "string \<Rightarrow> string \<Rightarrow> string option" where
  "strip_prefix p s = (if prefix p s then Some (drop (length p) s) else None)"

text \<open>\<^verbatim>\<open>s.split('\n')\<close>.\<close>

fun split_newline :: "string \<Rightarrow> string list" where
  "split_newline [] = [[]]"
| "split_newline (c # cs) =
     (if c = CHR 0x0A then [] # split_newline cs
      else (case split_newline cs of
              [] \<Rightarrow> [[c]]
            | l # ls \<Rightarrow> (c # l) # ls))"

text \<open>Decimal digits.\<close>

definition is_digit :: "char \<Rightarrow> bool" where
  "is_digit c = (48 \<le> (of_char c :: nat) \<and> (of_char c :: nat) \<le> 57)"

definition digit_val :: "char \<Rightarrow> nat" where
  "digit_val c = of_char c - 48"

definition digits_val :: "string \<Rightarrow> nat" where
  "digits_val ds = foldl (\<lambda>acc c. 10 * acc + digit_val c) 0 ds"

text \<open>The decimal numeral of a natural number, as string concatenation prints it.\<close>

fun decimal :: "nat \<Rightarrow> string" where
  "decimal n =
     (if n < 10 then [char_of (48 + n)]
      else decimal (n div 10) @ [char_of (48 + n mod 10)])"

section \<open>Client: the scan overlay\<close>

subsection \<open>normalizeUrl\<close>

text \<open>\<^verbatim>\<open>url.replace(/\/$/, '')\<close>: one slash at the very end is removed.\<close>

definition strip_trailing_slash :: "string \<Rightarrow> string" where
  "strip_trailing_slash s = (if s \<noteq> [] \<and> last s = CHR ''/'' then butlast s else s)"

text \<open>The pattern \<^verbatim>\<open>^https?:\/\/\<close> at the start of the string: what follows it.\<close>

definition after_scheme :: "string \<Rightarrow> string option" where
  "after_scheme s =
     (case strip_prefix ''http'' s of
        None \<Rightarrow> None
      | Some r \<Rightarrow>
          (case strip_prefix ''s://'' r of
             Some r' \<Rightarrow> Some r'
           | None \<Rightarrow> strip_prefix ''://'' r))"

text \<open>\<^verbatim>\<open>.replace(/^https?:\/\/(www\.)?/, '')\<close>: the scheme is removed, and a
  \<^verbatim>\<open>www.\<close> only when it directly follows the scheme.\<close>

definition strip_scheme :: "string \<Rightarrow> string" where
  "strip_scheme s =
     (case after_scheme s of
        None \<Rightarrow> s
      | Some r \<Rightarrow> (case strip_prefix ''www.'' r of Some r' \<Rightarrow> r' | None \<Rightarrow> r))"

text \<open>
  \<^verbatim>\<open>const normalizeUrl = (url) => { if (!url) return '';
       return url.replace(/\/$/, '').replace(/^https?:\/\/(www\.)?/, ''); }\<close>
  A truthy value that is not a string has no \<^verbatim>\<open>replace\<close> method: TypeError.
\<close>

definition normalizeUrl :: "jsval \<Rightarrow> js_error + string" where
  "normalizeUrl url =
     (if \<not> truthy url then Inr []
      else (case url of
              Some (JStr s) \<Rightarrow> Inr (strip_scheme (strip_trailing_slash s))
            | _ \<Rightarrow> Inl TypeError))"

subsection \<open>The overlay's state\<close>

text \<open>
  The \<^verbatim>\<open>useState\<close> cells of \<^verbatim>\<open>ScanOverlay\<close>. \<^verbatim>\<open>scanResults\<close> is an object
  used as a dictionary from normalized keys to result records; it is modelled by the
  map of its own properties (keys are site identifiers, not names that
  \<^verbatim>\<open>Object.prototype\<close> defines).
\<close>

record stats =
  total :: json
  found :: json

record overlay =
  websites :: "json list"
  loading :: bool
  error :: "string option"
  scanInitiated :: bool
  scanResults :: "string \<rightharpoonup> json"
  stats :: stats

definition initial_overlay :: overlay where
  "initial_overlay =
     \<lparr>websites = [], loading = True, error = None, scanInitiated = False,
      scanResults = Map.empty, stats = \<lparr>total = JNum 0, found = JNum 0\<rparr>\<rparr>"

subsection \<open>Merging a poll response\<close>

text \<open>\<^verbatim>\<open>r.prediction === 'Fake'\<close>, for \<open>r\<close> that is not \<^verbatim>\<open>null\<close>.\<close>

definition is_fake :: "json \<Rightarrow> bool" where
  "is_fake r = (get_prop r ''prediction'' = Inr (Some (JStr ''Fake'')))"

text \<open>\<^verbatim>\<open>normalizeUrl(r.source_url)\<close>; reading a property of \<^verbatim>\<open>null\<close> throws.\<close>

definition result_key :: "json \<Rightarrow> js_error + string" where
  "result_key r =
     (case get_prop r ''source_url'' of
        Inl e \<Rightarrow> Inl e
      | Inr url \<Rightarrow> normalizeUrl url)"

text \<open>
  The body of the \<^verbatim>\<open>forEach\<close> callback:
  \<^verbatim>\<open>const key = normalizeUrl(r.source_url);
  if (!resultsMap[key] || r.prediction === 'Fake') { resultsMap[key] = r; }\<close>
\<close>

definition merge_result :: "(string \<rightharpoonup> json) \<Rightarrow> json \<Rightarrow> js_error + (string \<rightharpoonup> json)" where
  "merge_result resultsMap r =
     (case result_key r of
        Inl e \<Rightarrow> Inl e
      | Inr key \<Rightarrow>
          Inr (if \<not> truthy (resultsMap key) \<or> is_fake r
               then resultsMap(key \<mapsto> r) else resultsMap))"

text \<open>\<^verbatim>\<open>data.all_results.forEach(r => ...)\<close> over the elements in order; an
  exception leaves the loop.\<close>

fun merge_all :: "(string \<rightharpoonup> json) \<Rightarrow> json list \<Rightarrow> js_error + (string \<rightharpoonup> json)" where
  "merge_all resultsMap [] = Inr resultsMap"
| "merge_all resultsMap (r # rs) =
     (case merge_result resultsMap r of
        Inl e \<Rightarrow> Inl e
      | Inr resultsMap' \<Rightarrow> merge_all resultsMap' rs)"

text \<open>\<^verbatim>\<open>v || 0\<close>.\<close>

definition or_zero :: "jsval \<Rightarrow> json" where
  "or_zero v = (case v of None \<Rightarrow> JNum 0 | Some j \<Rightarrow> if truthy v then j else JNum 0)"

text \<open>
  The callback given the parsed body:
  \<^verbatim>\<open>data => { if (data.success && data.all_results) {
       const resultsMap = {}; data.all_results.forEach(...);
       setScanResults(resultsMap);
       setStats({ total: data.summary?.total_scanned || 0,
                  found: data.summary?.deepfakes_found || 0 }); } }\<close>
  A truthy \<^verbatim>\<open>all_results\<close> that is not an array has no \<^verbatim>\<open>forEach\<close>: TypeError.
\<close>

definition poll_callback :: "overlay \<Rightarrow> json \<Rightarrow> js_error + overlay" where
  "poll_callback st data =
     (case get_prop data ''success'' of
        Inl e \<Rightarrow> Inl e
      | Inr success \<Rightarrow>
          if \<not> truthy success then Inr st
          else (case get_prop data ''all_results'' of
                  Inl e \<Rightarrow> Inl e
                | Inr all_results \<Rightarrow>
                    if \<not> truthy all_results then Inr st
                    else (case all_results of
                            Some (JArr rs) \<Rightarrow>
                              (case merge_all Map.empty rs of
                                 Inl e \<Rightarrow> Inl e
                               | Inr resultsMap \<Rightarrow>
                                   (case get_prop data ''summary'' of
                                      Inl e \<Rightarrow> Inl e
                                    | Inr summary \<Rightarrow>
                                        Inr (st\<lparr>scanResults := resultsMap,
                                                stats :=
                                                  \<lparr>total = or_zero (get_opt_chain summary ''total_scanned''),
                                                   found = or_zero (get_opt_chain summary ''deepfakes_found'')\<rparr>\<rparr>)))
                          | _ \<Rightarrow> Inl TypeError)))"

text \<open>
  One poll whose response body parsed: \<^verbatim>\<open>.then(data => ...).catch(console.error)\<close>.
  An exception in the callback is logged and the state stays as it was.
\<close>

definition poll_then :: "overlay \<Rightarrow> json \<Rightarrow> overlay" where
  "poll_then st data = (case poll_callback st data of Inl e \<Rightarrow> st | Inr st' \<Rightarrow> st')"

text \<open>Whether a field of the parsed body is present and truthy.\<close>

definition field_truthy :: "json \<Rightarrow> string \<Rightarrow> bool" where
  "field_truthy data name = (case get_prop data name of Inl e \<Rightarrow> False | Inr v \<Rightarrow> truthy v)"

subsection \<open>Derived render state\<close>

text \<open>
  \<^verbatim>\<open>const progressPercentage =
       websites.length > 0 ? (stats.total / websites.length) * 100 : 0;\<close>
  The division reads \<^verbatim>\<open>stats.total\<close> as a number; \<open>None\<close> stands for a
  total that is a string, an array or an object, whose coercion is not modelled.
\<close>

fun to_number :: "json \<Rightarrow> rat option" where
  "to_number (JNum n) = Some n"
| "to_number (JBool b) = Some (if b then 1 else 0)"
| "to_number JNull = Some 0"
| "to_number v = None"

definition progressPercentage :: "json list \<Rightarrow> stats \<Rightarrow> rat option" where
  "progressPercentage ws s =
     (if length ws > 0
      then map_option (\<lambda>t. (t / of_nat (length ws)) * 100) (to_number (total s))
      else Some 0)"

text \<open>
  The row of one site:
  \<^verbatim>\<open>const key = normalizeUrl(site); const result = scanResults[key];
  const isFake = result?.prediction === 'Fake';\<close>
  and \<^verbatim>\<open>result ? (isFake ? THREAT DETECTED : SAFE) : Scanning...\<close>.
\<close>

datatype site_status = Scanning | Safe | Threat

definition site_status :: "(string \<rightharpoonup> json) \<Rightarrow> json \<Rightarrow> js_error + site_status" where
  "site_status results site =
     (case normalizeUrl (Some site) of
        Inl e \<Rightarrow> Inl e
      | Inr key \<Rightarrow>
          (let result = results key in
           Inr (if truthy result
                then (if get_opt_chain result ''prediction'' = Some (JStr ''Fake'') then Threat else Safe)
                else Scanning)))"

section \<open>Server\<close>

text \<open>
  An HTTP response: \<^verbatim>\<open>res.status(n).json(obj)\<close>; \<^verbatim>\<open>res.json(obj)\<close> alone
  answers with status 200. Besides its response a handler has effects on the host,
  recorded in the order they happen.
\<close>

record response =
  status :: nat
  body :: json

text \<open>
  \<open>Spawn\<close> is a call of \<^verbatim>\<open>spawn\<close> (command, arguments, detached).
  \<open>UncaughtException\<close> is an exception that nothing catches: Node prints it and
  the server process exits.
\<close>

datatype action =
    Spawn string "string list" bool
  | WriteFile string
  | RemoveFile string
  | ConsoleLog "string list"
  | ConsoleError "string list"
  | UncaughtException string

text \<open>
  What the client receives from a route that can fail outside its own responses: the
  JSON response of the handler, or the error page of Express (HTML, with the given
  status) when a middleware passes an error on or the handler throws. The server has
  no error-handling middleware, and neither error carries a status of its own, so the
  status is 500.
\<close>

datatype reply = Reply response | ErrorPage nat

text \<open>
  The paths computed at startup by \<^verbatim>\<open>path.join(__dirname, ...)\<close>:
  \<^verbatim>\<open>uploads\<close>, \<^verbatim>\<open>../ml_service/predict.py\<close>,
  \<^verbatim>\<open>../ml_service/deepfake_scanner.py\<close>, \<^verbatim>\<open>../websites.txt\<close> and
  \<^verbatim>\<open>../ml_service/scan_results.json\<close>.
\<close>

record paths =
  uploadDir :: string
  predictPath :: string
  scannerPath :: string
  websitesPath :: string
  resultsPath :: string

text \<open>The outcome \<^verbatim>\<open>(err, data)\<close> that \<^verbatim>\<open>fs.readFile\<close> hands to its callback.\<close>

datatype read_result = ReadError string | ReadData string

definition failure :: "string \<Rightarrow> json" where
  "failure msg = JObj [(''success'', JBool False), (''error'', JStr msg)]"

subsection \<open>POST /api/v1/analyze\<close>

text \<open>
  The multer storage: \<^verbatim>\<open>destination\<close> is the upload directory and
  \<^verbatim>\<open>filename\<close> is \<^verbatim>\<open>Date.now() + '-' + file.originalname\<close>.
\<close>

record req_file =
  originalname :: string
  path :: string

definition filename :: "nat \<Rightarrow> string \<Rightarrow> string" where
  "filename now name = decimal now @ ''-'' @ name"

text \<open>
  A request, as the upload middleware sees it: the file parts of its multipart body in
  order, each with its field name and its file name (none for a request that is not
  multipart; text fields play no role here).
\<close>

record file_part =
  part_field :: string
  part_filename :: string

text \<open>
  \<^verbatim>\<open>upload.single('image')\<close>. multer goes through the file parts:
  \<^item> a part without a file name is skipped (\<^verbatim>\<open>if (!filename) return fileStream.resume()\<close>);
  \<^item> a part under another field name, or a second part under \<^verbatim>\<open>image\<close>, is an
    unexpected file: multer removes what it has stored and passes the error
    \<^verbatim>\<open>LIMIT_UNEXPECTED_FILE\<close> on, and the handler is not called;
  \<^item> otherwise the file is stored under the storage's name.
  At the end \<^verbatim>\<open>req.file\<close> is the stored file, if any.
\<close>

datatype upload_outcome = Passed "req_file option" | Refused string

fun upload_parts ::
  "paths \<Rightarrow> nat \<Rightarrow> req_file option \<Rightarrow> file_part list \<Rightarrow> action list \<times> upload_outcome" where
  "upload_parts ps now stored [] = ([], Passed stored)"
| "upload_parts ps now stored (p # rest) =
     (if part_filename p = [] then upload_parts ps now stored rest
      else if part_field p \<noteq> ''image'' \<or> stored \<noteq> None
      then ((case stored of None \<Rightarrow> [] | Some f \<Rightarrow> [RemoveFile (path f)]),
            Refused ''LIMIT_UNEXPECTED_FILE'')
      else (let target = uploadDir ps @ ''/'' @ filename now (part_filename p);
                (acts, outcome) =
                   upload_parts ps now
                     (Some \<lparr>originalname = part_filename p, path = target\<rparr>) rest
            in (WriteFile target # acts, outcome)))"

definition upload_single :: "paths \<Rightarrow> nat \<Rightarrow> file_part list \<Rightarrow> action list \<times> upload_outcome" where
  "upload_single ps now parts = upload_parts ps now None parts"

text \<open>
  The two patterns searched in the captured output. \<open>dot_run\<close> is the longest run
  that \<^verbatim>\<open>.+\<close> can take; \<open>regex_search\<close> tries the start positions from left
  to right, as \<^verbatim>\<open>String.prototype.match\<close> does, and answers capture group 1.
  In \<^verbatim>\<open>/\[Confidence\] (.+)%/\<close> the greedy group gives characters back until a
  percent sign follows it.
\<close>

definition dot_run :: "string \<Rightarrow> string" where
  "dot_run s = takeWhile (\<lambda>c. \<not> is_line_terminator c) s"

definition class_at :: "string \<Rightarrow> string option" where
  "class_at s =
     (case strip_prefix ''[Result] Class: '' s of
        None \<Rightarrow> None
      | Some r \<Rightarrow> (let cap = dot_run r in if cap = [] then None else Some cap))"

definition conf_at :: "string \<Rightarrow> string option" where
  "conf_at s =
     (case strip_prefix ''[Confidence] '' s of
        None \<Rightarrow> None
      | Some r \<Rightarrow>
          (let l = dot_run r;
               ks = filter (\<lambda>k. l ! k = CHR ''%'') [1..<length l]
           in if ks = [] then None else Some (take (last ks) l)))"

fun regex_search :: "(string \<Rightarrow> string option) \<Rightarrow> string \<Rightarrow> string option" where
  "regex_search pat [] = pat []"
| "regex_search pat (c # cs) =
     (case pat (c # cs) of
        Some cap \<Rightarrow> Some cap
      | None \<Rightarrow> regex_search pat cs)"

definition classMatch :: "string \<Rightarrow> string option" where
  "classMatch dataString = regex_search class_at dataString"

definition confMatch :: "string \<Rightarrow> string option" where
  "confMatch dataString = regex_search conf_at dataString"

text \<open>
  The Number value of a real number: the nearest binary64 value, ties going to the
  even significand, and infinity from \<open>2 ^ 1024\<close> on. \<open>Finite\<close> carries the exact
  value of the binary64 number (negative zero is not told from zero; JSON writes both
  as \<^verbatim>\<open>0\<close>).
\<close>

datatype jsnum = NaN | PosInfinity | NegInfinity | Finite rat

text \<open>
  The exponent \<open>e\<close> with \<open>2 ^ e \<le> q < 2 ^ (e + 1)\<close>, for positive \<open>q\<close>: from 1 on, one
  less than the number of bits of the integer part; below 1, the least \<open>k\<close> with
  \<open>1 / q \<le> 2 ^ k\<close>, negated.
\<close>

definition floor_log2 :: "rat \<Rightarrow> int" where
  "floor_log2 q = (if 1 \<le> q then bitlen \<lfloor>q\<rfloor> - 1 else - bitlen (\<lceil>1 / q\<rceil> - 1))"

definition round_half_even :: "rat \<Rightarrow> int" where
  "round_half_even m =
     (let f = \<lfloor>m\<rfloor>; d = m - of_int f
      in if d < 1 / 2 then f
         else if 1 / 2 < d then f + 1
         else if even f then f else f + 1)"

text \<open>
  A binary64 number with exponent \<open>e\<close> is a multiple of \<open>2 ^ (e - 52)\<close>; the least
  exponent is \<open>-1022\<close> (below it the numbers are subnormal, with the same spacing).
\<close>

definition binary64 :: "rat \<Rightarrow> jsnum" where
  "binary64 q =
     (if q = 0 then Finite 0
      else (let a = \<bar>q\<bar>;
                e = max (floor_log2 a) (- 1022);
                ulp = 2 powi (e - 52);
                r = of_int (round_half_even (a / ulp)) * ulp
            in if 2 powi 1024 \<le> r then (if 0 < q then PosInfinity else NegInfinity)
               else Finite (if 0 < q then r else - r)))"

text \<open>
  \<^verbatim>\<open>parseFloat\<close>: leading white space is skipped and the longest prefix that is a
  decimal literal (sign, \<^verbatim>\<open>Infinity\<close>, digits, fraction, exponent) is read; there
  being none the result is \<^verbatim>\<open>NaN\<close>. The result is the Number value of the
  literal's mathematical value.
\<close>

datatype literal = NoLiteral | InfinityLiteral | Decimal rat

definition exp_digits :: "string \<Rightarrow> nat option" where
  "exp_digits s = (let ds = takeWhile is_digit s in if ds = [] then None else Some (digits_val ds))"

definition exponent_part :: "string \<Rightarrow> int" where
  "exponent_part s =
     (case s of
        [] \<Rightarrow> 0
      | c # r \<Rightarrow>
          if c = CHR ''e'' \<or> c = CHR ''E''
          then (case r of
                  [] \<Rightarrow> 0
                | sg # r' \<Rightarrow>
                    if sg = CHR ''+'' then (case exp_digits r' of None \<Rightarrow> 0 | Some n \<Rightarrow> int n)
                    else if sg = CHR ''-'' then (case exp_digits r' of None \<Rightarrow> 0 | Some n \<Rightarrow> - int n)
                    else (case exp_digits r of None \<Rightarrow> 0 | Some n \<Rightarrow> int n))
          else 0)"

definition scale10 :: "rat \<Rightarrow> int \<Rightarrow> rat" where
  "scale10 m e = (if 0 \<le> e then m * 10 ^ nat e else m / 10 ^ nat (- e))"

definition unsigned_decimal :: "string \<Rightarrow> literal" where
  "unsigned_decimal s =
     (if prefix ''Infinity'' s then InfinityLiteral
      else (let ip = takeWhile is_digit s; r1 = dropWhile is_digit s in
            case r1 of
              [] \<Rightarrow> if ip = [] then NoLiteral else Decimal (of_nat (digits_val ip))
            | c # r2 \<Rightarrow>
                if c = CHR ''.''
                then (let fp = takeWhile is_digit r2; r3 = dropWhile is_digit r2 in
                      if ip = [] \<and> fp = [] then NoLiteral
                      else Decimal (scale10 (of_nat (digits_val ip)
                                             + of_nat (digits_val fp) / 10 ^ length fp)
                                      (exponent_part r3)))
                else if ip = [] then NoLiteral
                else Decimal (scale10 (of_nat (digits_val ip)) (exponent_part r1))))"

fun number_value :: "literal \<Rightarrow> jsnum" where
  "number_value NoLiteral = NaN"
| "number_value InfinityLiteral = PosInfinity"
| "number_value (Decimal q) = binary64 q"

fun negate :: "jsnum \<Rightarrow> jsnum" where
  "negate NaN = NaN"
| "negate PosInfinity = NegInfinity"
| "negate NegInfinity = PosInfinity"
| "negate (Finite q) = Finite (- q)"

definition parseFloat :: "string \<Rightarrow> jsnum" where
  "parseFloat s =
     (case dropWhile is_whitespace s of
        [] \<Rightarrow> NaN
      | c # r \<Rightarrow>
          if c = CHR ''+'' then number_value (unsigned_decimal r)
          else if c = CHR ''-'' then negate (number_value (unsigned_decimal r))
          else number_value (unsigned_decimal (c # r)))"

text \<open>A number in a JSON body: \<^verbatim>\<open>JSON.stringify\<close> writes \<^verbatim>\<open>null\<close> for
  \<^verbatim>\<open>NaN\<close> and the infinities.\<close>

fun json_number :: "jsnum \<Rightarrow> json" where
  "json_number (Finite q) = JNum q"
| "json_number n = JNull"

text \<open>
  What the external process reports to the \<^verbatim>\<open>close\<close> listener: the exit code
  (\<^verbatim>\<open>null\<close>, here \<open>None\<close>, when a signal ended it) and the text collected from
  its two output streams.
\<close>

record proc_close =
  code :: "int option"
  dataString :: string
  errorString :: string

text \<open>
  The \<^verbatim>\<open>close\<close> listener:
  \<^verbatim>\<open>if (code !== 0) { console.error(...); return res.status(500).json(...); }
  const classMatch = dataString.match(/\[Result\] Class: (.+)/);
  const confMatch = dataString.match(/\[Confidence\] (.+)%/);
  if (classMatch && confMatch) { res.json({ success: true, result: {
       label: classMatch[1].trim(), confidence: parseFloat(confMatch[1]),
       isFake: classMatch[1].includes('Fake') } }); }
  else { console.error(...); res.status(500).json(...); }\<close>
\<close>

definition on_close :: "proc_close \<Rightarrow> action list \<times> response" where
  "on_close p =
     (if code p \<noteq> Some 0
      then ([ConsoleError [''Python Script Error:'', errorString p]],
            \<lparr>status = 500, body = failure ''Analysis execution failed''\<rparr>)
      else (case (classMatch (dataString p), confMatch (dataString p)) of
              (Some cls, Some conf) \<Rightarrow>
                ([], \<lparr>status = 200,
                      body = JObj [(''success'', JBool True),
                                   (''result'',
                                    JObj [(''label'', JStr (trim cls)),
                                          (''confidence'', json_number (parseFloat conf)),
                                          (''isFake'', JBool (includes_str ''Fake'' cls))])]\<rparr>)
            | _ \<Rightarrow>
                ([ConsoleError [''Parse Error, Output:'', dataString p]],
                 \<lparr>status = 500, body = failure ''Failed to parse analysis results''\<rparr>)))"

text \<open>
  What a call of \<^verbatim>\<open>spawn\<close> leads to:
  \<^item> \<open>Exits\<close>: the process starts and in the end closes, with the given report;
  \<^item> \<open>Hangs\<close>: the process starts and never closes;
  \<^item> \<open>ErrorEvent\<close>: the process cannot be started (the command is not found, for
    instance); \<^verbatim>\<open>spawn\<close> returns a handle all the same and the failure is emitted as
    the handle's \<^verbatim>\<open>error\<close> event once the running handler has returned. Neither
    handler of this server listens to that event, so it is thrown, uncaught;
  \<^item> \<open>Throws\<close>: \<^verbatim>\<open>spawn\<close> itself throws. No handler catches it, so Express
    answers with its error page.
\<close>

datatype child =
    Exits proc_close
  | Hangs
  | ErrorEvent string
  | Throws string

text \<open>
  The route handler. \<open>run\<close> is the host: what spawning with the given arguments
  leads to. There is no timeout: a process that never closes leaves the request
  without a response.
\<close>

definition analyze_handler ::
  "paths \<Rightarrow> (string list \<Rightarrow> child) \<Rightarrow> req_file option \<Rightarrow> action list \<times> reply option" where
  "analyze_handler ps run file =
     (case file of
        None \<Rightarrow>
          ([], Some (Reply \<lparr>status = 400, body = failure ''No image file uploaded''\<rparr>))
      | Some f \<Rightarrow>
          (let args = [predictPath ps, path f] in
           case run args of
             Throws err \<Rightarrow> ([Spawn ''python'' args False], Some (ErrorPage 500))
           | ErrorEvent err \<Rightarrow> ([Spawn ''python'' args False, UncaughtException err], None)
           | Hangs \<Rightarrow> ([Spawn ''python'' args False], None)
           | Exits p \<Rightarrow>
               (Spawn ''python'' args False # fst (on_close p), Some (Reply (snd (on_close p))))))"

text \<open>The endpoint: the upload middleware, then the handler unless the upload was
  refused.\<close>

definition analyze_endpoint ::
  "paths \<Rightarrow> nat \<Rightarrow> (string list \<Rightarrow> child) \<Rightarrow> file_part list \<Rightarrow> action list \<times> reply option" where
  "analyze_endpoint ps now run parts =
     (case upload_single ps now parts of
        (written, Refused err) \<Rightarrow> (written, Some (ErrorPage 500))
      | (written, Passed file) \<Rightarrow>
          (written @ fst (analyze_handler ps run file), snd (analyze_handler ps run file)))"

subsection \<open>POST /api/v1/global-scan\<close>

text \<open>
  \<^verbatim>\<open>console.log(...); const pythonProcess = spawn('python', [scriptPath],
       { detached: true, stdio: 'ignore' });
  pythonProcess.unref(); res.json({ success: true, message: ... });\<close>
  The handler has no \<^verbatim>\<open>try\<close> and attaches no listener to the handle.
\<close>

definition scan_started :: response where
  "scan_started =
     \<lparr>status = 200,
      body = JObj [(''success'', JBool True),
                   (''message'', JStr ''Global deepfake scan initiated in background.'')]\<rparr>"

definition global_scan_handler :: "paths \<Rightarrow> child \<Rightarrow> action list \<times> reply" where
  "global_scan_handler ps outcome =
     (let announce = ConsoleLog [''[Global Scan] Initiating scan using '' @ scannerPath ps];
          call = Spawn ''python'' [scannerPath ps] True
      in case outcome of
           Throws err \<Rightarrow> ([announce, call], ErrorPage 500)
         | ErrorEvent err \<Rightarrow> ([announce, call, UncaughtException err], Reply scan_started)
         | _ \<Rightarrow> ([announce, call], Reply scan_started))"

subsection \<open>GET /api/v1/websites\<close>

definition websites_handler :: "read_result \<Rightarrow> action list \<times> response" where
  "websites_handler rd =
     (case rd of
        ReadError err \<Rightarrow>
          ([ConsoleError [''Error reading websites.txt:'', err]],
           \<lparr>status = 500, body = failure ''Failed to load website list''\<rparr>)
      | ReadData data \<Rightarrow>
          ([], \<lparr>status = 200,
                body = JObj [(''success'', JBool True),
                             (''websites'',
                              JArr (map JStr (filter (\<lambda>line. length line > 0)
                                                (map trim (split_newline data)))))]\<rparr>))"

subsection \<open>GET /api/v1/scan-results\<close>

text \<open>The answer \<^verbatim>\<open>{ success: true, results: [], summary: { total_scanned: 0 } }\<close>.\<close>

definition empty_summary :: json where
  "empty_summary =
     JObj [(''success'', JBool True), (''results'', JArr []),
           (''summary'', JObj [(''total_scanned'', JNum 0)])]"

text \<open>
  The spread \<^verbatim>\<open>{ success: true, ...jsonData }\<close>: the own enumerable properties
  of the parsed document are assigned in order (the indices of an array or of a
  string; none for a number, a boolean or \<^verbatim>\<open>null\<close>).
\<close>

definition own_properties :: "json \<Rightarrow> (string \<times> json) list" where
  "own_properties v =
     (case v of
        JObj kvs \<Rightarrow> kvs
      | JArr xs \<Rightarrow> zip (map decimal [0..<length xs]) xs
      | JStr s \<Rightarrow> zip (map decimal [0..<length s]) (map (\<lambda>c. JStr [c]) s)
      | _ \<Rightarrow> [])"

definition spread :: "(string \<times> json) list \<Rightarrow> json \<Rightarrow> (string \<times> json) list" where
  "spread base v = foldl (\<lambda>acc (k, w). set_prop k w acc) base (own_properties v)"

text \<open>
  The handler. \<open>parse\<close> is \<^verbatim>\<open>JSON.parse\<close> (\<open>None\<close> when it throws a
  SyntaxError), \<open>present\<close> is the answer of \<^verbatim>\<open>fs.existsSync\<close>, and \<open>rd\<close> is
  what \<^verbatim>\<open>fs.readFile\<close> delivers thereafter.
\<close>

definition scan_results_handler ::
  "(string \<Rightarrow> json option) \<Rightarrow> bool \<Rightarrow> read_result \<Rightarrow> action list \<times> response" where
  "scan_results_handler parse present rd =
     (if \<not> present then ([], \<lparr>status = 200, body = empty_summary\<rparr>)
      else (case rd of
              ReadError err \<Rightarrow>
                ([ConsoleError [''Error reading results:'', err]],
                 \<lparr>status = 500, body = failure ''Failed to load results''\<rparr>)
            | ReadData data \<Rightarrow>
                (case parse data of
                   Some jsonData \<Rightarrow>
                     ([], \<lparr>status = 200,
                           body = JObj (spread [(''success'', JBool True)] jsonData)\<rparr>)
                 | None \<Rightarrow> ([], \<lparr>status = 200, body = empty_summary\<rparr>))))"

section \<open>Properties of the scan-results endpoint\<close>

text \<open>
  C6. When the results file does not exist, the scan-results endpoint answers with
  status 200 and exactly the body
  \<^verbatim>\<open>{ success: true, results: [], summary: { total_scanned: 0 } }\<close>, whatever a
  read of the file would have given: absence is not an error.
\<close>

theorem scan_results_absent:
  "scan_results_handler parse False rd =
     ([], \<lparr>status = 200,
           body = JObj [(''success'', JBool True), (''results'', JArr []),
                        (''summary'', JObj [(''total_scanned'', JNum 0)])]\<rparr>)"
  by (simp add: scan_results_handler_def empty_summary_def)

theorem scan_results_absent_witness:
  "scan_results_handler (\<lambda>s. None) False (ReadError ''ENOENT'') =
     ([], \<lparr>status = 200,
           body = JObj [(''success'', JBool True), (''results'', JArr []),
                        (''summary'', JObj [(''total_scanned'', JNum 0)])]\<rparr>)"
  by (rule scan_results_absent)

text \<open>
  C4. When the results file exists and is read but its contents do not parse
  (\<^verbatim>\<open>JSON.parse\<close> throws, as it does on the empty document), the endpoint answers
  with status 200 and the empty-summary body: the handler returns a response, and
  that response is not a 500.
\<close>

theorem scan_results_malformed:
  assumes "parse contents = None"
  shows "scan_results_handler parse True (ReadData contents) =
           ([], \<lparr>status = 200, body = empty_summary\<rparr>)
         \<and> status (snd (scan_results_handler parse True (ReadData contents))) \<noteq> 500"
  using assms by (simp add: scan_results_handler_def)

theorem scan_results_malformed_witness:
  "(\<lambda>s. if s = ''{}'' then Some (JObj []) else None) [] = None
   \<and> scan_results_handler (\<lambda>s. if s = ''{}'' then Some (JObj []) else None) True (ReadData []) =
       ([], \<lparr>status = 200, body = empty_summary\<rparr>)"
  using scan_results_malformed [of "\<lambda>s. if s = ''{}'' then Some (JObj []) else None" "[]"]
  by simp

text \<open>
  C5, as the specification states it, fails: when the results file exists and the
  read fails, the endpoint answers with status 500, not with the empty success shape.
\<close>

theorem scan_results_read_error_counterexample:
  "status (snd (scan_results_handler (\<lambda>s. None) True (ReadError ''EACCES''))) = 500
   \<and> body (snd (scan_results_handler (\<lambda>s. None) True (ReadError ''EACCES''))) \<noteq> empty_summary"
  by (simp add: scan_results_handler_def empty_summary_def failure_def)

text \<open>
  C5, amended. When the results file exists but reading it fails, the scan-results
  endpoint logs the error and answers with status 500 and
  \<^verbatim>\<open>{ success: false, error: 'Failed to load results' }\<close>, as the website-list
  endpoint answers 500 with its own message on a read error.
\<close>

theorem scan_results_read_error:
  "scan_results_handler parse True (ReadError err) =
     ([ConsoleError [''Error reading results:'', err]],
      \<lparr>status = 500,
       body = JObj [(''success'', JBool False), (''error'', JStr ''Failed to load results'')]\<rparr>)
   \<and> websites_handler (ReadError err) =
     ([ConsoleError [''Error reading websites.txt:'', err]],
      \<lparr>status = 500,
       body = JObj [(''success'', JBool False), (''error'', JStr ''Failed to load website list'')]\<rparr>)"
  by (simp add: scan_results_handler_def websites_handler_def failure_def)

theorem scan_results_read_error_witness:
  "snd (scan_results_handler (\<lambda>s. None) True (ReadError ''EACCES'')) =
     \<lparr>status = 500,
      body = JObj [(''success'', JBool False), (''error'', JStr ''Failed to load results'')]\<rparr>
   \<and> snd (websites_handler (ReadError ''EACCES'')) =
     \<lparr>status = 500,
      body = JObj [(''success'', JBool False), (''error'', JStr ''Failed to load website list'')]\<rparr>"
  using scan_results_read_error [of "\<lambda>s. None" "''EACCES''"] by simp

section \<open>Properties of normalizeUrl\<close>

lemma strip_trailing_slash_append:
  "t \<noteq> [] \<Longrightarrow> strip_trailing_slash (p @ t) = p @ strip_trailing_slash t"
  by (simp add: strip_trailing_slash_def butlast_append)

lemma strip_trailing_slash_snoc:
  "s = [] \<or> last s \<noteq> CHR ''/'' \<Longrightarrow> strip_trailing_slash (s @ ''/'') = s \<and> strip_trailing_slash s = s"
  by (auto simp add: strip_trailing_slash_def)

lemma prefix_strip_trailing_slash:
  "prefix p (strip_trailing_slash t) \<Longrightarrow> prefix p t"
  unfolding strip_trailing_slash_def
  by (auto split: if_splits intro: prefix_order.trans [OF _ prefixeq_butlast])

lemma after_scheme_http: "after_scheme (''http://'' @ u) = Some u"
  by (simp add: after_scheme_def strip_prefix_def)

lemma after_scheme_https: "after_scheme (''https://'' @ u) = Some u"
  by (simp add: after_scheme_def strip_prefix_def)

lemma after_scheme_none:
  "\<not> prefix ''http://'' u \<Longrightarrow> \<not> prefix ''https://'' u \<Longrightarrow> after_scheme u = None"
  by (auto simp add: after_scheme_def strip_prefix_def prefix_def split: option.splits)

lemma strip_scheme_http:
  "strip_scheme (''http://'' @ u) = (case strip_prefix ''www.'' u of Some r \<Rightarrow> r | None \<Rightarrow> u)"
  "strip_scheme (''https://'' @ u) = (case strip_prefix ''www.'' u of Some r \<Rightarrow> r | None \<Rightarrow> u)"
  unfolding strip_scheme_def after_scheme_http after_scheme_https by simp_all

lemma normalizeUrl_str:
  "s \<noteq> [] \<Longrightarrow> normalizeUrl (Some (JStr s)) = Inr (strip_scheme (strip_trailing_slash s))"
  by (simp add: normalizeUrl_def)

lemma normalizeUrl_scheme:
  assumes "t \<noteq> []"
  shows "normalizeUrl (Some (JStr (''http://'' @ t))) =
           Inr (case strip_prefix ''www.'' (strip_trailing_slash t) of Some r \<Rightarrow> r | None \<Rightarrow> strip_trailing_slash t)"
    and "normalizeUrl (Some (JStr (''https://'' @ t))) =
           Inr (case strip_prefix ''www.'' (strip_trailing_slash t) of Some r \<Rightarrow> r | None \<Rightarrow> strip_trailing_slash t)"
  using assms strip_trailing_slash_append [of t "''http://''"] strip_trailing_slash_append [of t "''https://''"]
    strip_scheme_http [of "strip_trailing_slash t"]
  by (simp_all add: normalizeUrl_def)

lemma normalizeUrl_www:
  assumes "t \<noteq> []"
  shows "normalizeUrl (Some (JStr (''http://www.'' @ t))) = Inr (strip_trailing_slash t)"
    and "normalizeUrl (Some (JStr (''https://www.'' @ t))) = Inr (strip_trailing_slash t)"
  using normalizeUrl_scheme [of "''www.'' @ t"] assms strip_trailing_slash_append [of t "''www.''"]
  by (simp_all add: strip_prefix_def)

text \<open>
  C2, as the specification states it, fails: a leading \<^verbatim>\<open>www.\<close> is removed only
  as part of the scheme pattern, so two identifiers without a scheme that differ only
  by a leading \<^verbatim>\<open>www.\<close> get different keys. Only one \<^verbatim>\<open>www.\<close> and only one
  trailing slash are removed, and the slash is removed first, so that a bare scheme
  is no longer recognised.
\<close>

theorem normalizeUrl_www_counterexample:
  "normalizeUrl (Some (JStr ''www.a.com'')) \<noteq> normalizeUrl (Some (JStr ''a.com''))
   \<and> normalizeUrl (Some (JStr ''http://www.www.a.com'')) \<noteq> normalizeUrl (Some (JStr ''http://www.a.com''))
   \<and> normalizeUrl (Some (JStr ''a.com//'')) \<noteq> normalizeUrl (Some (JStr ''a.com/''))
   \<and> normalizeUrl (Some (JStr ''http://'')) \<noteq> normalizeUrl (Some (JStr ''https://''))
   \<and> normalizeUrl (Some (JStr ''http://www.'')) \<noteq> normalizeUrl (Some (JStr ''http://''))
   \<and> normalizeUrl (Some (JStr ''http://http://a.com'')) \<noteq> normalizeUrl (Some (JStr ''http://a.com''))
   \<and> normalizeUrl (Some (JStr ''http://www.a.com'')) \<noteq> normalizeUrl (Some (JStr ''www.a.com''))
   \<and> normalizeUrl (Some (JStr ''http://'')) \<noteq> normalizeUrl (Some (JStr []))"
  by (simp add: normalizeUrl_def strip_scheme_def after_scheme_def strip_prefix_def strip_trailing_slash_def)

text \<open>
  C2, amended. The following spellings of a site get the same key:
  \<^item> \<^verbatim>\<open>http://\<close> against \<^verbatim>\<open>https://\<close> in front of a non-empty rest;
  \<^item> one slash appended to an identifier that does not already end with a slash;
  \<^item> \<^verbatim>\<open>www.\<close> directly after the scheme, present or not, in front of a non-empty
    rest that does not itself begin with \<^verbatim>\<open>www.\<close>;
  \<^item> a scheme in front of a non-empty identifier that begins with none of
    \<^verbatim>\<open>http://\<close>, \<^verbatim>\<open>https://\<close> and \<^verbatim>\<open>www.\<close>, against the bare identifier.
\<close>

theorem normalizeUrl_same_key:
  "(t \<noteq> [] \<longrightarrow>
      normalizeUrl (Some (JStr (''http://'' @ t))) = normalizeUrl (Some (JStr (''https://'' @ t))))
   \<and> (s = [] \<or> last s \<noteq> CHR ''/'' \<longrightarrow>
      normalizeUrl (Some (JStr (s @ ''/''))) = normalizeUrl (Some (JStr s)))
   \<and> (t \<noteq> [] \<and> \<not> prefix ''www.'' t \<longrightarrow>
      normalizeUrl (Some (JStr (''http://www.'' @ t))) = normalizeUrl (Some (JStr (''http://'' @ t)))
      \<and> normalizeUrl (Some (JStr (''https://www.'' @ t))) = normalizeUrl (Some (JStr (''https://'' @ t))))
   \<and> (t \<noteq> [] \<and> \<not> prefix ''http://'' t \<and> \<not> prefix ''https://'' t
       \<and> \<not> prefix ''www.'' t \<longrightarrow>
      normalizeUrl (Some (JStr (''http://'' @ t))) = normalizeUrl (Some (JStr t))
      \<and> normalizeUrl (Some (JStr (''https://'' @ t))) = normalizeUrl (Some (JStr t)))"
proof (intro conjI impI)
  assume "t \<noteq> []"
  then show "normalizeUrl (Some (JStr (''http://'' @ t))) = normalizeUrl (Some (JStr (''https://'' @ t)))"
    using normalizeUrl_scheme [of t] by simp
next
  assume h: "s = [] \<or> last s \<noteq> CHR ''/''"
  have a: "normalizeUrl (Some (JStr (s @ ''/''))) = Inr (strip_scheme s)"
    using strip_trailing_slash_snoc [OF h] by (simp add: normalizeUrl_def)
  have b: "normalizeUrl (Some (JStr s)) = Inr (strip_scheme s)"
  proof (cases "s = []")
    case True
    then show ?thesis
      by (simp add: normalizeUrl_def strip_scheme_def after_scheme_def strip_prefix_def)
  next
    case False
    then show ?thesis using strip_trailing_slash_snoc [OF h] by (simp add: normalizeUrl_def)
  qed
  show "normalizeUrl (Some (JStr (s @ ''/''))) = normalizeUrl (Some (JStr s))"
    by (simp only: a b)
next
  assume h: "t \<noteq> [] \<and> \<not> prefix ''www.'' t"
  then have nw: "strip_prefix ''www.'' (strip_trailing_slash t) = None"
    using prefix_strip_trailing_slash [of "''www.''" t] by (auto simp add: strip_prefix_def)
  show "normalizeUrl (Some (JStr (''http://www.'' @ t))) = normalizeUrl (Some (JStr (''http://'' @ t)))"
    using h nw normalizeUrl_www [of t] normalizeUrl_scheme [of t] by simp
  show "normalizeUrl (Some (JStr (''https://www.'' @ t))) = normalizeUrl (Some (JStr (''https://'' @ t)))"
    using h nw normalizeUrl_www [of t] normalizeUrl_scheme [of t] by simp
next
  assume h: "t \<noteq> [] \<and> \<not> prefix ''http://'' t \<and> \<not> prefix ''https://'' t
       \<and> \<not> prefix ''www.'' t"
  then have nw: "strip_prefix ''www.'' (strip_trailing_slash t) = None"
    using prefix_strip_trailing_slash [of "''www.''" t] by (auto simp add: strip_prefix_def)
  from h have "after_scheme (strip_trailing_slash t) = None"
    using prefix_strip_trailing_slash [of "''http://''" t]
      prefix_strip_trailing_slash [of "''https://''" t]
    by (auto intro: after_scheme_none)
  then have bare: "normalizeUrl (Some (JStr t)) = Inr (strip_trailing_slash t)"
    using h by (simp add: normalizeUrl_def strip_scheme_def)
  show "normalizeUrl (Some (JStr (''http://'' @ t))) = normalizeUrl (Some (JStr t))"
    using h nw bare normalizeUrl_scheme [of t] by simp
  show "normalizeUrl (Some (JStr (''https://'' @ t))) = normalizeUrl (Some (JStr t))"
    using h nw bare normalizeUrl_scheme [of t] by simp
qed

theorem normalizeUrl_same_key_witness:
  "normalizeUrl (Some (JStr ''http://httpbin.org/'')) = normalizeUrl (Some (JStr ''https://httpbin.org/''))
   \<and> normalizeUrl (Some (JStr ''httpbin.org/'')) = normalizeUrl (Some (JStr ''httpbin.org''))
   \<and> normalizeUrl (Some (JStr ''http://www.httpbin.org/'')) = normalizeUrl (Some (JStr ''http://httpbin.org/''))
   \<and> normalizeUrl (Some (JStr ''https://httpbin.org/'')) = normalizeUrl (Some (JStr ''httpbin.org/''))"
  using normalizeUrl_same_key [of "''httpbin.org/''" "''httpbin.org''"] by simp

section \<open>Properties of the poller\<close>

lemma poll_then_not_success:
  "\<not> field_truthy data ''success'' \<Longrightarrow> poll_then st data = st"
  by (auto simp add: poll_then_def poll_callback_def field_truthy_def split: sum.splits)

lemma poll_then_not_all_results:
  "\<not> field_truthy data ''all_results'' \<Longrightarrow> poll_then st data = st"
  by (auto simp add: poll_then_def poll_callback_def field_truthy_def split: sum.splits)

text \<open>
  C10. A poll whose parsed body has no truthy \<^verbatim>\<open>all_results\<close> leaves the whole
  state of the overlay, and so \<^verbatim>\<open>scanResults\<close> and \<^verbatim>\<open>stats\<close>, as it was. The
  server's answer for an absent results file is such a body: its list is under
  \<^verbatim>\<open>results\<close>. Conversely a poll changes the state only when \<^verbatim>\<open>success\<close> and
  \<^verbatim>\<open>all_results\<close> are both truthy.
\<close>

theorem poll_keeps_state:
  "(\<not> field_truthy data ''all_results'' \<longrightarrow> poll_then st data = st)
   \<and> poll_then st (body (snd (scan_results_handler parse False rd))) = st
   \<and> (poll_then st data \<noteq> st \<longrightarrow>
        field_truthy data ''success'' \<and> field_truthy data ''all_results'')"
proof (intro conjI impI)
  assume "\<not> field_truthy data ''all_results''"
  then show "poll_then st data = st" by (rule poll_then_not_all_results)
next
  have "\<not> field_truthy empty_summary ''all_results''"
    by (simp add: field_truthy_def empty_summary_def)
  then have "poll_then st empty_summary = st" by (rule poll_then_not_all_results)
  then show "poll_then st (body (snd (scan_results_handler parse False rd))) = st"
    by (simp add: scan_results_handler_def)
next
  assume "poll_then st data \<noteq> st"
  then show "field_truthy data ''success''"
    using poll_then_not_success [of data st] by blast
next
  assume "poll_then st data \<noteq> st"
  then show "field_truthy data ''all_results''"
    using poll_then_not_all_results [of data st] by blast
qed

theorem poll_keeps_state_witness:
  "\<not> field_truthy (JObj [(''success'', JBool True), (''results'', JArr [JObj [(''source_url'', JStr ''a.com''), (''prediction'', JStr ''Fake'')]])]) ''all_results''
   \<and> poll_then initial_overlay (JObj [(''success'', JBool True), (''results'', JArr [JObj [(''source_url'', JStr ''a.com''), (''prediction'', JStr ''Fake'')]])]) = initial_overlay
   \<and> poll_then initial_overlay (body (snd (scan_results_handler (\<lambda>s. None) False (ReadError ''ENOENT'')))) = initial_overlay"
  using poll_keeps_state [of "JObj [(''success'', JBool True), (''results'', JArr [JObj [(''source_url'', JStr ''a.com''), (''prediction'', JStr ''Fake'')]])]" initial_overlay "\<lambda>s. None" "ReadError ''ENOENT''"]
  by (simp add: field_truthy_def)

section \<open>Properties of the merge\<close>

lemma is_fake_truthy: "is_fake r \<Longrightarrow> truthy (Some r)"
  by (cases r) (simp_all add: is_fake_def)

lemma merge_result_fake:
  "is_fake r \<Longrightarrow> result_key r = Inr k \<Longrightarrow> merge_result m r = Inr (m(k \<mapsto> r))"
  by (simp add: merge_result_def)

lemma merge_result_keep:
  "\<not> is_fake r \<Longrightarrow> result_key r = Inr k \<Longrightarrow> truthy (m k) \<Longrightarrow> merge_result m r = Inr m"
  by (simp add: merge_result_def)

lemma merge_result_other:
  "merge_result m r = Inr m' \<Longrightarrow> result_key r \<noteq> Inr k \<Longrightarrow> m' k = m k"
  by (auto simp add: merge_result_def split: sum.splits if_splits)

lemma merge_all_append:
  "merge_all m (xs @ ys) = Inr m' \<longleftrightarrow> (\<exists>m1. merge_all m xs = Inr m1 \<and> merge_all m1 ys = Inr m')"
  by (induction xs arbitrary: m) (auto split: sum.splits)

lemma merge_all_total:
  "\<forall>r\<in>set rs. result_key r \<noteq> Inl TypeError \<Longrightarrow> \<exists>m'. merge_all m rs = Inr m'"
proof (induction rs arbitrary: m)
  case Nil
  then show ?case by simp
next
  case (Cons r rs)
  then obtain k where "result_key r = Inr k"
    by (cases "result_key r") (auto intro: js_error.exhaust)
  then obtain m1 where "merge_result m r = Inr m1"
    by (simp add: merge_result_def)
  with Cons show ?case by simp
qed

lemma fake_persists:
  assumes "merge_all m zs = Inr m'" and "m k = Some f" and "is_fake f"
  shows "(\<exists>r. m' k = Some r \<and> is_fake r \<and> (r = f \<or> r \<in> set zs \<and> result_key r = Inr k))
         \<and> ((\<forall>z\<in>set zs. is_fake z \<longrightarrow> result_key z \<noteq> Inr k) \<longrightarrow> m' k = Some f)"
  using assms
proof (induction zs arbitrary: m f)
  case Nil
  then show ?case by auto
next
  case (Cons z zs)
  from Cons.prems(1) obtain m1 where step: "merge_result m z = Inr m1" and rest: "merge_all m1 zs = Inr m'"
    by (auto split: sum.splits)
  show ?case
  proof (cases "is_fake z \<and> result_key z = Inr k")
    case True
    then have "m1 = m(k \<mapsto> z)" using step merge_result_fake [of z k m] by simp
    then have "m1 k = Some z" by simp
    from Cons.IH [OF rest this] True show ?thesis by auto
  next
    case False
    have "m1 k = Some f"
    proof (cases "result_key z = Inr k")
      case True
      with False have "\<not> is_fake z" by simp
      moreover have "truthy (m k)" using Cons.prems(2,3) is_fake_truthy by simp
      ultimately have "merge_result m z = Inr m" using True by (simp add: merge_result_keep)
      with step Cons.prems(2) show ?thesis by simp
    next
      case False
      with step Cons.prems(2) show ?thesis by (simp add: merge_result_other)
    qed
    from Cons.IH [OF rest this Cons.prems(3)] False show ?thesis by auto
  qed
qed

lemma merge_all_fake_wins:
  assumes run: "merge_all m0 (pre @ fake # zs) = Inr m"
    and key: "result_key fake = Inr k" and fake: "is_fake fake"
  shows "(\<exists>r. m k = Some r \<and> is_fake r \<and> result_key r = Inr k \<and> r \<in> set (fake # zs))
         \<and> ((\<forall>z\<in>set zs. is_fake z \<longrightarrow> result_key z \<noteq> Inr k) \<longrightarrow> m k = Some fake)"
proof -
  from run obtain m1 where "merge_all m1 (fake # zs) = Inr m"
    unfolding merge_all_append by blast
  then have "merge_all (m1(k \<mapsto> fake)) zs = Inr m"
    using merge_result_fake [OF fake key, of m1] by simp
  from fake_persists [OF this _ fake, of k] key show ?thesis by auto
qed

lemma poll_then_merged:
  assumes "field_truthy data ''success''"
    and "get_prop data ''all_results'' = Inr (Some (JArr rs))"
    and "merge_all Map.empty rs = Inr m"
  shows "scanResults (poll_then st data) = m"
proof -
  from assms(2) obtain kvs where "data = JObj kvs" by (cases data) simp_all
  with assms show ?thesis
    by (simp add: poll_then_def poll_callback_def field_truthy_def)
qed

lemma site_status_threat:
  "normalizeUrl (Some site) = Inr k \<Longrightarrow> m k = Some r \<Longrightarrow> is_fake r \<Longrightarrow>
   site_status m site = Inr Threat"
  by (cases r) (simp_all add: site_status_def is_fake_def)


text \<open>
  C1. Let a poll carry a results list that merges without an exception and holds a
  \<^verbatim>\<open>Real\<close> record and, later, a \<^verbatim>\<open>Fake\<close> record with the same normalized key.
  Then the merged entry for that key is a \<^verbatim>\<open>Fake\<close> record with that key, found
  at that record or after it, and it is that very record when no later \<^verbatim>\<open>Fake\<close>
  record has the key; a site with that key is shown as a threat.
  In every step a \<^verbatim>\<open>Fake\<close> record replaces the entry of its key, and a record
  that is not \<^verbatim>\<open>Fake\<close> leaves an existing (truthy) entry of its key alone.
\<close>

theorem poll_prefers_fake:
  "(field_truthy data ''success''
    \<and> get_prop data ''all_results'' = Inr (Some (JArr (xs @ realRec # ys @ fakeRec # zs)))
    \<and> (\<forall>r\<in>set (xs @ realRec # ys @ fakeRec # zs). result_key r \<noteq> Inl TypeError)
    \<and> result_key realRec = Inr k \<and> get_prop realRec ''prediction'' = Inr (Some (JStr ''Real''))
    \<and> result_key fakeRec = Inr k \<and> is_fake fakeRec
    \<longrightarrow> (\<exists>r. scanResults (poll_then st data) k = Some r \<and> is_fake r
              \<and> result_key r = Inr k \<and> r \<in> set (fakeRec # zs))
        \<and> ((\<forall>z\<in>set zs. is_fake z \<longrightarrow> result_key z \<noteq> Inr k)
             \<longrightarrow> scanResults (poll_then st data) k = Some fakeRec)
        \<and> (normalizeUrl (Some site) = Inr k
             \<longrightarrow> site_status (scanResults (poll_then st data)) site = Inr Threat))
   \<and> (is_fake r' \<and> result_key r' = Inr j \<longrightarrow> merge_result m0 r' = Inr (m0(j \<mapsto> r')))
   \<and> (\<not> is_fake r' \<and> result_key r' = Inr j \<and> truthy (m0 j) \<longrightarrow> merge_result m0 r' = Inr m0)"
proof (intro conjI impI)
  assume h: "field_truthy data ''success''
    \<and> get_prop data ''all_results'' = Inr (Some (JArr (xs @ realRec # ys @ fakeRec # zs)))
    \<and> (\<forall>r\<in>set (xs @ realRec # ys @ fakeRec # zs). result_key r \<noteq> Inl TypeError)
    \<and> result_key realRec = Inr k \<and> get_prop realRec ''prediction'' = Inr (Some (JStr ''Real''))
    \<and> result_key fakeRec = Inr k \<and> is_fake fakeRec"
  then obtain m where run: "merge_all Map.empty (xs @ realRec # ys @ fakeRec # zs) = Inr m"
    using merge_all_total [of "xs @ realRec # ys @ fakeRec # zs" Map.empty] by blast
  with h have merged: "scanResults (poll_then st data) = m"
    by (simp add: poll_then_merged)
  from run have "merge_all Map.empty ((xs @ realRec # ys) @ fakeRec # zs) = Inr m" by simp
  from merge_all_fake_wins [OF this] h
  have wins: "(\<exists>r. m k = Some r \<and> is_fake r \<and> result_key r = Inr k \<and> r \<in> set (fakeRec # zs))
         \<and> ((\<forall>z\<in>set zs. is_fake z \<longrightarrow> result_key z \<noteq> Inr k) \<longrightarrow> m k = Some fakeRec)"
    by blast
  then show "\<exists>r. scanResults (poll_then st data) k = Some r \<and> is_fake r
              \<and> result_key r = Inr k \<and> r \<in> set (fakeRec # zs)"
    unfolding merged by blast
  {
    assume "\<forall>z\<in>set zs. is_fake z \<longrightarrow> result_key z \<noteq> Inr k"
    with wins show "scanResults (poll_then st data) k = Some fakeRec"
      unfolding merged by blast
  }
  {
    assume "normalizeUrl (Some site) = Inr k"
    with wins show "site_status (scanResults (poll_then st data)) site = Inr Threat"
      unfolding merged by (auto intro: site_status_threat)
  }
next
  assume "is_fake r' \<and> result_key r' = Inr j"
  then show "merge_result m0 r' = Inr (m0(j \<mapsto> r'))"
    by (simp add: merge_result_fake)
next
  assume "\<not> is_fake r' \<and> result_key r' = Inr j \<and> truthy (m0 j)"
  then show "merge_result m0 r' = Inr m0"
    by (simp add: merge_result_keep)
qed

lemma result_key_example:
  "result_key (JObj [(''source_url'', JStr ''http://a.com/''), (''prediction'', JStr ''Real''), (''confidence'', JNum 91)]) = Inr ''a.com''"
  "result_key (JObj [(''source_url'', JStr ''https://www.a.com''), (''prediction'', JStr ''Fake''), (''confidence'', JNum 88)]) = Inr ''a.com''"
  "result_key (JObj [(''source_url'', JStr ''a.com''), (''prediction'', JStr ''Real''), (''confidence'', JNum 70)]) = Inr ''a.com''"
  "normalizeUrl (Some (JStr ''a.com'')) = Inr ''a.com''"
  by (simp_all add: result_key_def normalizeUrl_def strip_scheme_def after_scheme_def
      strip_prefix_def strip_trailing_slash_def)

theorem poll_prefers_fake_witness:
  "scanResults
     (poll_then initial_overlay
        (JObj [(''success'', JBool True),
               (''all_results'',
                JArr [JObj [(''source_url'', JStr ''http://a.com/''), (''prediction'', JStr ''Real''), (''confidence'', JNum 91)],
                      JObj [(''source_url'', JStr ''https://www.a.com''), (''prediction'', JStr ''Fake''), (''confidence'', JNum 88)],
                      JObj [(''source_url'', JStr ''a.com''), (''prediction'', JStr ''Real''), (''confidence'', JNum 70)]])]))
     ''a.com''
   = Some (JObj [(''source_url'', JStr ''https://www.a.com''), (''prediction'', JStr ''Fake''), (''confidence'', JNum 88)])
   \<and> site_status
        (scanResults
          (poll_then initial_overlay
            (JObj [(''success'', JBool True),
               (''all_results'',
                JArr [JObj [(''source_url'', JStr ''http://a.com/''), (''prediction'', JStr ''Real''), (''confidence'', JNum 91)],
                      JObj [(''source_url'', JStr ''https://www.a.com''), (''prediction'', JStr ''Fake''), (''confidence'', JNum 88)],
                      JObj [(''source_url'', JStr ''a.com''), (''prediction'', JStr ''Real''), (''confidence'', JNum 70)]])])))
        (JStr ''a.com'')
      = Inr Threat"
  using poll_prefers_fake
    [of "JObj [(''success'', JBool True),
               (''all_results'',
                JArr [JObj [(''source_url'', JStr ''http://a.com/''), (''prediction'', JStr ''Real''), (''confidence'', JNum 91)],
                      JObj [(''source_url'', JStr ''https://www.a.com''), (''prediction'', JStr ''Fake''), (''confidence'', JNum 88)],
                      JObj [(''source_url'', JStr ''a.com''), (''prediction'', JStr ''Real''), (''confidence'', JNum 70)]])]"
        "[]"
        "JObj [(''source_url'', JStr ''http://a.com/''), (''prediction'', JStr ''Real''), (''confidence'', JNum 91)]"
        "[]"
        "JObj [(''source_url'', JStr ''https://www.a.com''), (''prediction'', JStr ''Fake''), (''confidence'', JNum 88)]"
        "[JObj [(''source_url'', JStr ''a.com''), (''prediction'', JStr ''Real''), (''confidence'', JNum 70)]]"
        "''a.com''" initial_overlay "JStr ''a.com''"]
  by (simp add: field_truthy_def is_fake_def result_key_example)


section \<open>Properties of the progress bar\<close>

lemma progress_formula:
  "ws \<noteq> [] \<Longrightarrow> total s = JNum n \<Longrightarrow> progressPercentage ws s = Some (n / of_nat (length ws) * 100)"
  by (simp add: progressPercentage_def)

lemma or_zero_number: "or_zero (Some (JNum n)) = JNum n"
  by (simp add: or_zero_def)

lemma poll_then_total:
  assumes "field_truthy data ''success''"
    and "get_prop data ''all_results'' = Inr (Some (JArr rs))"
    and "\<forall>r\<in>set rs. result_key r \<noteq> Inl TypeError"
    and "get_prop data ''summary'' = Inr (Some (JObj sm))"
    and "map_of sm ''total_scanned'' = Some (JNum n)"
  shows "total (stats (poll_then st data)) = JNum n"
proof -
  from assms(3) obtain m where "merge_all Map.empty rs = Inr m"
    using merge_all_total [of rs Map.empty] by blast
  moreover from assms(2) obtain kvs where "data = JObj kvs" by (cases data) simp_all
  ultimately show ?thesis
    using assms
    by (simp add: poll_then_def poll_callback_def field_truthy_def or_zero_number)
qed

text \<open>
  C7. With a non-empty website list and a numeric total, the progress percentage is
  \<^verbatim>\<open>total / websites.length * 100\<close>, where the total is the \<^verbatim>\<open>total_scanned\<close>
  of the last merged poll; nothing clamps it, so a total above the number of websites
  gives more than 100. After a poll that reports
  \<^verbatim>\<open>total_scanned: 1, deepfakes_found: 0\<close>, the list \<^verbatim>\<open>["a.com", "b.com"]\<close> is at 50.
\<close>

theorem progress_unclamped:
  "(ws \<noteq> [] \<and> total s = JNum n \<longrightarrow>
      progressPercentage ws s = Some (n / of_nat (length ws) * 100))
   \<and> (ws \<noteq> [] \<and> field_truthy data ''success''
       \<and> get_prop data ''all_results'' = Inr (Some (JArr rs))
       \<and> (\<forall>r\<in>set rs. result_key r \<noteq> Inl TypeError)
       \<and> get_prop data ''summary'' = Inr (Some (JObj sm))
       \<and> map_of sm ''total_scanned'' = Some (JNum n) \<longrightarrow>
      progressPercentage ws (stats (poll_then st data)) = Some (n / of_nat (length ws) * 100))
   \<and> (ws \<noteq> [] \<and> total s = JNum n \<and> of_nat (length ws) < n \<longrightarrow>
      (\<exists>p. progressPercentage ws s = Some p \<and> 100 < p))
   \<and> progressPercentage [JStr ''a.com'', JStr ''b.com'']
        (stats (poll_then initial_overlay
           (JObj [(''success'', JBool True), (''all_results'', JArr []),
                  (''summary'', JObj [(''total_scanned'', JNum 1), (''deepfakes_found'', JNum 0)])])))
      = Some 50"
proof (intro conjI impI)
  assume "ws \<noteq> [] \<and> total s = JNum n"
  then show "progressPercentage ws s = Some (n / of_nat (length ws) * 100)"
    by (simp add: progress_formula)
next
  assume h: "ws \<noteq> [] \<and> field_truthy data ''success''
       \<and> get_prop data ''all_results'' = Inr (Some (JArr rs))
       \<and> (\<forall>r\<in>set rs. result_key r \<noteq> Inl TypeError)
       \<and> get_prop data ''summary'' = Inr (Some (JObj sm))
       \<and> map_of sm ''total_scanned'' = Some (JNum n)"
  then have "total (stats (poll_then st data)) = JNum n"
    using poll_then_total [of data rs sm n st] by blast
  with h show "progressPercentage ws (stats (poll_then st data)) = Some (n / of_nat (length ws) * 100)"
    by (simp add: progress_formula)
next
  assume h: "ws \<noteq> [] \<and> total s = JNum n \<and> of_nat (length ws) < n"
  then have pos: "(0::rat) < of_nat (length ws)" by simp
  define q where "q = n / of_nat (length ws)"
  from h pos have "1 < q"
    unfolding q_def by (simp add: less_divide_eq)
  then have "100 < q * 100" by simp
  moreover from h have "progressPercentage ws s = Some (q * 100)"
    unfolding q_def by (simp add: progress_formula)
  ultimately show "\<exists>p. progressPercentage ws s = Some p \<and> 100 < p"
    by blast
next
  show "progressPercentage [JStr ''a.com'', JStr ''b.com'']
        (stats (poll_then initial_overlay
           (JObj [(''success'', JBool True), (''all_results'', JArr []),
                  (''summary'', JObj [(''total_scanned'', JNum 1), (''deepfakes_found'', JNum 0)])])))
      = Some 50"
    by (simp add: progressPercentage_def poll_then_def poll_callback_def or_zero_def initial_overlay_def)
qed

theorem progress_unclamped_witness:
  "progressPercentage [JStr ''a.com'', JStr ''b.com''] \<lparr>total = JNum 1, found = JNum 0\<rparr> = Some 50
   \<and> progressPercentage [JStr ''a.com'', JStr ''b.com''] \<lparr>total = JNum 3, found = JNum 1\<rparr> = Some 150
   \<and> progressPercentage [JStr ''a.com'', JStr ''b.com'']
        (stats (poll_then initial_overlay
           (JObj [(''success'', JBool True),
                  (''all_results'', JArr [JObj [(''source_url'', JStr ''a.com''), (''prediction'', JStr ''Real'')]]),
                  (''summary'', JObj [(''total_scanned'', JNum 3), (''deepfakes_found'', JNum 0)])])))
      = Some 150"
  using progress_unclamped [of "[JStr ''a.com'', JStr ''b.com'']" "\<lparr>total = JNum 1, found = JNum 0\<rparr>" 1]
    progress_unclamped [of "[JStr ''a.com'', JStr ''b.com'']" "\<lparr>total = JNum 3, found = JNum 1\<rparr>" 3
       "JObj [(''success'', JBool True),
              (''all_results'', JArr [JObj [(''source_url'', JStr ''a.com''), (''prediction'', JStr ''Real'')]]),
              (''summary'', JObj [(''total_scanned'', JNum 3), (''deepfakes_found'', JNum 0)])]"
       "[JObj [(''source_url'', JStr ''a.com''), (''prediction'', JStr ''Real'')]]"
       "[(''total_scanned'', JNum 3), (''deepfakes_found'', JNum 0)]" initial_overlay]
  by (simp add: field_truthy_def result_key_def normalizeUrl_def)

section \<open>Properties of the Number value\<close>

lemma floor_log2_bounds:
  assumes "0 < q"
  shows "2 powi (floor_log2 q) \<le> q \<and> q < 2 powi (floor_log2 q + 1)"
proof (cases "1 \<le> q")
  case True
  define n where "n = \<lfloor>q\<rfloor>"
  have n1: "1 \<le> n" using True by (simp add: n_def le_floor_iff)
  then have n0: "0 < n" by simp
  have b1: "1 \<le> bitlen n" using n0 bitlen_eq_zero_iff [of n] bitlen_nonneg [of n] by linarith
  from bitlen_bounds [OF n0] have lo: "2 ^ nat (bitlen n - 1) \<le> n" and hi: "n < 2 ^ nat (bitlen n)"
    by simp_all
  have e: "floor_log2 q = bitlen n - 1" using True by (simp add: floor_log2_def n_def)
  have "(2::rat) powi (bitlen n - 1) = 2 ^ nat (bitlen n - 1)"
    using b1 by (simp add: power_int_def)
  also have "\<dots> = of_int (2 ^ nat (bitlen n - 1))" by simp
  also have "\<dots> \<le> of_int n" using lo by (simp only: of_int_le_iff)
  also have "\<dots> \<le> q" by (simp add: n_def)
  finally have l: "2 powi (floor_log2 q) \<le> q" by (simp add: e)
  have "n + 1 \<le> 2 ^ nat (bitlen n)" using hi by simp
  then have "(of_int (n + 1) :: rat) \<le> of_int (2 ^ nat (bitlen n))" by (simp only: of_int_le_iff)
  moreover have "q < of_int (n + 1)" unfolding n_def by linarith
  ultimately have "q < of_int (2 ^ nat (bitlen n))" by linarith
  also have "\<dots> = 2 powi (bitlen n)" using b1 by (simp add: power_int_def)
  finally have "q < 2 powi (floor_log2 q + 1)" by (simp add: e)
  with l show ?thesis by simp
next
  case False
  then have q1: "q < 1" by simp
  define r where "r = 1 / q"
  have r1: "1 < r" using assms q1 by (simp add: r_def)
  define m where "m = \<lceil>r\<rceil> - 1"
  have m0: "0 < m" using r1 by (simp add: m_def less_ceiling_iff)
  have b1: "1 \<le> bitlen m" using m0 bitlen_eq_zero_iff [of m] bitlen_nonneg [of m] by linarith
  from bitlen_bounds [OF m0] have lo: "2 ^ nat (bitlen m - 1) \<le> m" and hi: "m < 2 ^ nat (bitlen m)"
    by simp_all
  have e: "floor_log2 q = - bitlen m" using False by (simp add: floor_log2_def m_def r_def)
  have "r \<le> of_int (m + 1)" by (simp add: m_def)
  moreover have "m + 1 \<le> 2 ^ nat (bitlen m)" using hi by simp
  then have "(of_int (m + 1) :: rat) \<le> of_int (2 ^ nat (bitlen m))"
    by (simp only: of_int_le_iff)
  moreover have "(of_int (2 ^ nat (bitlen m)) :: rat) = 2 ^ nat (bitlen m)" by simp
  ultimately have rle: "r \<le> 2 ^ nat (bitlen m)" by linarith
  have "of_int m < r" unfolding m_def using ceiling_correct [of r] by simp
  moreover have "(2::rat) ^ nat (bitlen m - 1) \<le> of_int m"
    using lo by simp
  ultimately have rgt: "2 ^ nat (bitlen m - 1) < r" by linarith
  have qr: "q = 1 / r" using assms by (simp add: r_def)
  have "2 powi (- bitlen m) = 1 / (2::rat) ^ nat (bitlen m)"
    using b1 by (simp add: power_int_def field_simps)
  also have "\<dots> \<le> 1 / r" using rle r1 by (simp add: frac_le)
  also have "\<dots> = q" by (simp only: qr)
  finally have l: "2 powi (floor_log2 q) \<le> q" by (simp only: e)
  have "q = 1 / r" by (rule qr)
  also have "\<dots> < 1 / (2::rat) ^ nat (bitlen m - 1)"
    using rgt by (simp add: frac_less2)
  also have "\<dots> = 2 powi (- bitlen m + 1)"
  proof (cases "bitlen m = 1")
    case True
    then show ?thesis by simp
  next
    case False
    with b1 have "\<not> 0 \<le> - bitlen m + 1" by simp
    moreover have "nat (- (- bitlen m + 1)) = nat (bitlen m - 1)" by simp
    ultimately show ?thesis by (simp add: power_int_def field_simps)
  qed
  finally have "q < 2 powi (floor_log2 q + 1)" by (simp only: e)
  with l show ?thesis by simp
qed

lemma floor_log2_unique:
  assumes "2 powi e \<le> q" and "q < 2 powi (e + 1)"
  shows "floor_log2 q = e"
proof -
  have "(0::rat) < 2 powi e" by simp
  with assms have q0: "0 < q" by linarith
  from floor_log2_bounds [OF q0]
  have l: "2 powi (floor_log2 q) \<le> q" and u: "q < 2 powi (floor_log2 q + 1)" by simp_all
  have "(2::rat) powi (floor_log2 q) < 2 powi (e + 1)" using l assms(2) by linarith
  then have a: "floor_log2 q < e + 1"
    by (metis linorder_not_less one_le_numeral power_int_increasing)
  have "(2::rat) powi e < 2 powi (floor_log2 q + 1)" using u assms(1) by linarith
  then have b: "e < floor_log2 q + 1"
    by (metis linorder_not_less one_le_numeral power_int_increasing)
  from a b show ?thesis by simp
qed

lemma round_half_even_of_int: "round_half_even (of_int k) = k"
  by (simp add: round_half_even_def)

lemma floor_le_round_half_even: "\<lfloor>m\<rfloor> \<le> round_half_even m"
  by (simp add: round_half_even_def Let_def)


lemma binary64_exact:
  assumes lower: "2 powi e \<le> q" and upper: "q < 2 powi (e + 1)"
    and emin: "- 1022 \<le> e" and emax: "e \<le> 1023"
    and ongrid: "q / 2 powi (e - 52) = of_int k"
  shows "binary64 q = Finite q"
proof -
  have "(0::rat) < 2 powi e" by simp
  with lower have q0: "0 < q" by linarith
  have fl: "floor_log2 q = e" using lower upper by (rule floor_log2_unique)
  have m: "max (floor_log2 \<bar>q\<bar>) (- 1022) = e" using fl emin q0 by simp
  define ulp :: rat where "ulp = 2 powi (e - 52)"
  have ulp0: "ulp \<noteq> 0" by (simp add: ulp_def)
  have "q / ulp = of_int k" using ongrid by (simp only: ulp_def)
  then have regrid: "of_int (round_half_even (\<bar>q\<bar> / ulp)) * ulp = q"
    using ulp0 q0 by (simp add: round_half_even_of_int field_simps)
  have "(2::rat) powi (e + 1) \<le> 2 powi 1024"
    using emax by (intro power_int_increasing) simp_all
  with upper have small: "\<not> 2 powi 1024 \<le> q" by linarith
  have "binary64 q =
          (if 2 powi 1024 \<le> of_int (round_half_even (\<bar>q\<bar> / ulp)) * ulp
           then (if 0 < q then PosInfinity else NegInfinity)
           else Finite (if 0 < q then of_int (round_half_even (\<bar>q\<bar> / ulp)) * ulp
                        else - (of_int (round_half_even (\<bar>q\<bar> / ulp)) * ulp)))"
    unfolding binary64_def Let_def m ulp_def using q0 by simp
  then show ?thesis
    unfolding regrid using q0 small by simp
qed

lemma binary64_overflow:
  assumes "2 powi 1024 \<le> q"
  shows "binary64 q = PosInfinity"
proof -
  have "(0::rat) < 2 powi 1024" by simp
  with assms have q0: "0 < q" by linarith
  define e where "e = floor_log2 q"
  from floor_log2_bounds [OF q0] have lo: "2 powi e \<le> q" and hi: "q < 2 powi (e + 1)"
    by (simp_all add: e_def)
  have "(2::rat) powi 1024 < 2 powi (e + 1)" using assms hi by linarith
  then have "1024 < e + 1"
    by (metis linorder_not_less one_le_numeral power_int_increasing)
  then have e1024: "1024 \<le> e" by simp
  define ulp :: rat where "ulp = 2 powi (e - 52)"
  have ulp0: "0 < ulp" by (simp add: ulp_def)
  have split: "(2::rat) powi e = 2 powi 52 * ulp"
    unfolding ulp_def by (simp flip: power_int_add del: power_int_numeral)
  have "(2::rat) powi 52 \<le> q / ulp"
    using lo ulp0 unfolding split by (simp add: field_simps)
  moreover have "(2::rat) powi 52 = of_int (2 ^ 52)" by simp
  ultimately have "(2 ^ 52 :: int) \<le> \<lfloor>q / ulp\<rfloor>"
    by (simp only: le_floor_iff)
  then have "(2 ^ 52 :: int) \<le> round_half_even (q / ulp)"
    using floor_le_round_half_even [of "q / ulp"] by linarith
  then have "(of_int (2 ^ 52) :: rat) \<le> of_int (round_half_even (q / ulp))"
    by (simp only: of_int_le_iff)
  then have "of_int (2 ^ 52) * ulp \<le> of_int (round_half_even (q / ulp)) * ulp"
    using ulp0 by (simp only: mult_le_cancel_right_pos)
  moreover have "(of_int (2 ^ 52) :: rat) * ulp = 2 powi e"
    unfolding split by simp
  moreover have "(2::rat) powi 1024 \<le> 2 powi e"
    using e1024 by (intro power_int_increasing) simp_all
  ultimately have big: "2 powi 1024 \<le> of_int (round_half_even (q / ulp)) * ulp"
    by linarith
  have m: "max (floor_log2 q) (- 1022) = e" using e1024 by (simp add: e_def)
  show ?thesis
    using q0 big
    by (simp add: binary64_def Let_def m ulp_def del: power_int_numeral)
qed


lemma binary64_150: "binary64 150 = Finite 150"
  by (rule binary64_exact [where e = 7 and k = "150 * 2 ^ 45"]) simp_all

lemma binary64_97_5: "binary64 (195 / 2) = Finite (195 / 2)"
  by (rule binary64_exact [where e = 6 and k = "195 * 2 ^ 45"]) simp_all

lemma literal_examples:
  "unsigned_decimal ''150'' = Decimal 150"
  "unsigned_decimal ''97.5'' = Decimal (195 / 2)"
  by code_simp+


lemma binary64_1e400: "binary64 (10 ^ 400) = PosInfinity"
  by (rule binary64_overflow) simp

lemma literal_1e400: "unsigned_decimal ''1e400'' = Decimal (10 ^ 400)"
  by (simp add: unsigned_decimal_def is_digit_def digits_val_def digit_val_def
      exponent_part_def exp_digits_def scale10_def Let_def)

lemma parseFloat_unsigned:
  "parseFloat ''150'' = number_value (unsigned_decimal ''150'')"
  "parseFloat ''97.5'' = number_value (unsigned_decimal ''97.5'')"
  "parseFloat ''1e400'' = number_value (unsigned_decimal ''1e400'')"
  by (simp_all add: parseFloat_def is_whitespace_def)

lemma parseFloat_examples:
  "parseFloat ''150'' = Finite 150"
  "parseFloat ''97.5'' = Finite (195 / 2)"
  "parseFloat ''1e400'' = PosInfinity"
  by (simp_all only: parseFloat_unsigned literal_examples literal_1e400 number_value.simps
      binary64_150 binary64_97_5 binary64_1e400)

section \<open>Properties of the global-scan endpoint\<close>

text \<open>
  C8, as the specification states it, fails: when the process cannot be started, the
  failure is not swallowed and logged. The response is sent, and then the failure,
  for which the handler has no listener, is thrown as an uncaught exception that
  ends the server.
\<close>

theorem global_scan_spawn_error_counterexample:
  "fst (global_scan_handler
          \<lparr>uploadDir = ''/srv/server/uploads'', predictPath = ''/srv/ml_service/predict.py'',
           scannerPath = ''/srv/ml_service/deepfake_scanner.py'',
           websitesPath = ''/srv/websites.txt'',
           resultsPath = ''/srv/ml_service/scan_results.json''\<rparr>
          (ErrorEvent ''spawn python ENOENT'')) =
     [ConsoleLog [''[Global Scan] Initiating scan using /srv/ml_service/deepfake_scanner.py''],
      Spawn ''python'' [''/srv/ml_service/deepfake_scanner.py''] True,
      UncaughtException ''spawn python ENOENT'']
   \<and> snd (global_scan_handler
          \<lparr>uploadDir = ''/srv/server/uploads'', predictPath = ''/srv/ml_service/predict.py'',
           scannerPath = ''/srv/ml_service/deepfake_scanner.py'',
           websitesPath = ''/srv/websites.txt'',
           resultsPath = ''/srv/ml_service/scan_results.json''\<rparr>
          (ErrorEvent ''spawn python ENOENT'')) =
     Reply \<lparr>status = 200,
            body = JObj [(''success'', JBool True),
                         (''message'', JStr ''Global deepfake scan initiated in background.'')]\<rparr>"
  by (simp add: global_scan_handler_def scan_started_def)

text \<open>
  C8, amended. Whenever \<^verbatim>\<open>spawn\<close> returns a child handle, the handler answers with
  status 200 and \<^verbatim>\<open>{ success: true, message: ... }\<close>, whether or not the process
  starts. A process that cannot be started does not change that response, but its
  failure is thrown as an uncaught exception after the response, which ends the
  server; a process that starts leaves nothing but the log line and the call. When
  \<^verbatim>\<open>spawn\<close> itself throws, the handler sends nothing and Express answers with its
  500 error page.
\<close>

theorem global_scan_replies:
  "((\<forall>err. outcome \<noteq> Throws err) \<longrightarrow>
      snd (global_scan_handler ps outcome) =
        Reply \<lparr>status = 200,
               body = JObj [(''success'', JBool True),
                            (''message'', JStr ''Global deepfake scan initiated in background.'')]\<rparr>)
   \<and> global_scan_handler ps (ErrorEvent err) =
       ([ConsoleLog [''[Global Scan] Initiating scan using '' @ scannerPath ps],
         Spawn ''python'' [scannerPath ps] True,
         UncaughtException err],
        Reply scan_started)
   \<and> fst (global_scan_handler ps (Exits p)) =
       [ConsoleLog [''[Global Scan] Initiating scan using '' @ scannerPath ps],
        Spawn ''python'' [scannerPath ps] True]
   \<and> fst (global_scan_handler ps Hangs) =
       [ConsoleLog [''[Global Scan] Initiating scan using '' @ scannerPath ps],
        Spawn ''python'' [scannerPath ps] True]
   \<and> global_scan_handler ps (Throws err) =
       ([ConsoleLog [''[Global Scan] Initiating scan using '' @ scannerPath ps],
         Spawn ''python'' [scannerPath ps] True],
        ErrorPage 500)"
  by (cases outcome) (simp_all add: global_scan_handler_def scan_started_def)

theorem global_scan_replies_witness:
  "snd (global_scan_handler
          \<lparr>uploadDir = ''/srv/server/uploads'', predictPath = ''/srv/ml_service/predict.py'',
           scannerPath = ''/srv/ml_service/deepfake_scanner.py'',
           websitesPath = ''/srv/websites.txt'',
           resultsPath = ''/srv/ml_service/scan_results.json''\<rparr>
          Hangs) =
     Reply \<lparr>status = 200,
            body = JObj [(''success'', JBool True),
                         (''message'', JStr ''Global deepfake scan initiated in background.'')]\<rparr>
   \<and> snd (global_scan_handler
          \<lparr>uploadDir = ''/srv/server/uploads'', predictPath = ''/srv/ml_service/predict.py'',
           scannerPath = ''/srv/ml_service/deepfake_scanner.py'',
           websitesPath = ''/srv/websites.txt'',
           resultsPath = ''/srv/ml_service/scan_results.json''\<rparr>
          (Throws ''spawn EINVAL'')) = ErrorPage 500"
  using global_scan_replies
    [of Hangs
        "\<lparr>uploadDir = ''/srv/server/uploads'', predictPath = ''/srv/ml_service/predict.py'',
          scannerPath = ''/srv/ml_service/deepfake_scanner.py'',
          websitesPath = ''/srv/websites.txt'',
          resultsPath = ''/srv/ml_service/scan_results.json''\<rparr>"
        "''spawn EINVAL''"]
  by simp

section \<open>Properties of the analyze endpoint\<close>





section \<open>Properties of the analysis verdict\<close>

lemma includes_str_sublist: "includes_str needle hay = sublist needle hay"
  by (induction hay) (simp_all add: sublist_Cons_right)

lemma sublist_dropWhile_iff:
  assumes "needle \<noteq> []" and "\<not> P (hd needle)"
  shows "sublist needle (dropWhile P hay) = sublist needle hay"
proof (induction hay)
  case Nil
  then show ?case by simp
next
  case (Cons x xs)
  show ?case
  proof (cases "P x")
    case True
    with assms have "\<not> prefix needle (x # xs)"
      by (cases needle) auto
    with True Cons show ?thesis by (simp add: sublist_Cons_right)
  next
    case False
    then show ?thesis by simp
  qed
qed

lemma sublist_trim:
  assumes "needle \<noteq> []" and "\<not> is_whitespace (hd needle)" and "\<not> is_whitespace (last needle)"
  shows "sublist needle (trim s) = sublist needle s"
proof -
  have r: "rev needle \<noteq> []" "\<not> is_whitespace (hd (rev needle))"
    using assms by (simp_all add: hd_rev)
  have "sublist needle (trim s) = sublist (rev needle) (dropWhile is_whitespace (rev (dropWhile is_whitespace s)))"
    by (simp add: trim_def sublist_rev_right)
  also have "\<dots> = sublist (rev needle) (rev (dropWhile is_whitespace s))"
    using r by (rule sublist_dropWhile_iff)
  also have "\<dots> = sublist needle (dropWhile is_whitespace s)"
    by simp
  also have "\<dots> = sublist needle s"
    using assms(1,2) by (rule sublist_dropWhile_iff)
  finally show ?thesis .
qed

lemma includes_Fake_trim: "includes_str ''Fake'' (trim s) = includes_str ''Fake'' s"
  unfolding includes_str_sublist
  by (rule sublist_trim) (simp_all add: is_whitespace_def)

lemma on_close_success:
  assumes "code p = Some 0" and "classMatch (dataString p) = Some cls"
    and "confMatch (dataString p) = Some conf"
  shows "on_close p =
     ([], \<lparr>status = 200,
           body = JObj [(''success'', JBool True),
                        (''result'',
                         JObj [(''label'', JStr (trim cls)),
                               (''confidence'', json_number (parseFloat conf)),
                               (''isFake'', JBool (includes_str ''Fake'' (trim cls)))])]\<rparr>)"
  using assms by (simp add: on_close_def includes_Fake_trim)

lemma overrange_example:
  "classMatch (''[Result] Class: Fake'' @ [CHR 0x0A] @ ''[Confidence] 150%'' @ [CHR 0x0A]) = Some ''Fake''"
  "confMatch (''[Result] Class: Fake'' @ [CHR 0x0A] @ ''[Confidence] 150%'' @ [CHR 0x0A]) = Some ''150''"
  "trim ''Fake'' = ''Fake''"
  "includes_str ''Fake'' ''Fake''"
  by code_simp+

text \<open>
  C3, as the specification states it, fails in its first half: the handler passes on
  whatever number the process printed. A process that exits with code 0 and prints
  \<^verbatim>\<open>[Confidence] 150%\<close> gets a success response with confidence 150.
\<close>

theorem analyze_confidence_counterexample:
  "classMatch (''[Result] Class: Fake'' @ [CHR 0x0A] @ ''[Confidence] 150%'' @ [CHR 0x0A]) \<noteq> None
   \<and> confMatch (''[Result] Class: Fake'' @ [CHR 0x0A] @ ''[Confidence] 150%'' @ [CHR 0x0A]) \<noteq> None
   \<and> snd (on_close \<lparr>code = Some 0,
                     dataString = ''[Result] Class: Fake'' @ [CHR 0x0A] @ ''[Confidence] 150%'' @ [CHR 0x0A],
                     errorString = []\<rparr>) =
       \<lparr>status = 200,
        body = JObj [(''success'', JBool True),
                     (''result'',
                      JObj [(''label'', JStr ''Fake''),
                            (''confidence'', JNum 150),
                            (''isFake'', JBool True)])]\<rparr>
   \<and> \<not> (150 :: rat) \<le> 100"
  using overrange_example parseFloat_examples(1) by (simp add: on_close_def)

text \<open>
  C3, amended. When the upload is accepted, the process exits with code 0 and its
  output matches both patterns, the response is a success whose \<^verbatim>\<open>label\<close> is the
  trimmed class text, whose \<^verbatim>\<open>isFake\<close> is \<^verbatim>\<open>label.includes('Fake')\<close>, and whose
  \<^verbatim>\<open>confidence\<close> is \<^verbatim>\<open>parseFloat\<close> of the text captured before the last percent
  sign of the line (\<^verbatim>\<open>null\<close> in the body when that is not a finite number), with no
  bound on it.
\<close>

theorem analyze_success_shape:
  assumes "upload_single ps now parts = (written, Passed (Some f))"
    and "run [predictPath ps, path f] = Exits p"
    and "code p = Some 0"
    and "classMatch (dataString p) = Some cls"
    and "confMatch (dataString p) = Some conf"
  shows "snd (analyze_endpoint ps now run parts) =
     Some (Reply \<lparr>status = 200,
                  body = JObj [(''success'', JBool True),
                               (''result'',
                                JObj [(''label'', JStr (trim cls)),
                                      (''confidence'', json_number (parseFloat conf)),
                                      (''isFake'', JBool (includes_str ''Fake'' (trim cls)))])]\<rparr>)"
  using assms on_close_success [of p cls conf]
  by (simp add: analyze_endpoint_def analyze_handler_def Let_def)

lemma match_example:
  "classMatch (''Loading model...'' @ [CHR 0x0A] @ ''[Result] Class: Fake '' @ [CHR 0x0D, CHR 0x0A]
               @ ''[Confidence] 97.5%'' @ [CHR 0x0D, CHR 0x0A]) = Some ''Fake ''"
  "confMatch (''Loading model...'' @ [CHR 0x0A] @ ''[Result] Class: Fake '' @ [CHR 0x0D, CHR 0x0A]
               @ ''[Confidence] 97.5%'' @ [CHR 0x0D, CHR 0x0A]) = Some ''97.5''"
  "trim ''Fake '' = ''Fake''"
  "includes_str ''Fake'' ''Fake''"
  "classMatch (''[Result] Class: Real'' @ [CHR 0x0A] @ ''[Confidence] 1e400%'' @ [CHR 0x0A]) = Some ''Real''"
  "confMatch (''[Result] Class: Real'' @ [CHR 0x0A] @ ''[Confidence] 1e400%'' @ [CHR 0x0A]) = Some ''1e400''"
  "trim ''Real'' = ''Real''"
  "\<not> includes_str ''Fake'' ''Real''"
  "upload_single
     \<lparr>uploadDir = ''/srv/server/uploads'', predictPath = ''/srv/ml_service/predict.py'',
      scannerPath = ''/srv/ml_service/deepfake_scanner.py'',
      websitesPath = ''/srv/websites.txt'',
      resultsPath = ''/srv/ml_service/scan_results.json''\<rparr>
     17 [\<lparr>part_field = ''image'', part_filename = ''face.png''\<rparr>] =
   ([WriteFile ''/srv/server/uploads/17-face.png''],
    Passed (Some \<lparr>originalname = ''face.png'', path = ''/srv/server/uploads/17-face.png''\<rparr>))"
  by code_simp+

theorem analyze_success_shape_witness:
  "snd (analyze_endpoint
          \<lparr>uploadDir = ''/srv/server/uploads'', predictPath = ''/srv/ml_service/predict.py'',
           scannerPath = ''/srv/ml_service/deepfake_scanner.py'',
           websitesPath = ''/srv/websites.txt'',
           resultsPath = ''/srv/ml_service/scan_results.json''\<rparr>
          17
          (\<lambda>args. Exits \<lparr>code = Some 0,
                          dataString = ''Loading model...'' @ [CHR 0x0A] @ ''[Result] Class: Fake '' @ [CHR 0x0D, CHR 0x0A]
                                       @ ''[Confidence] 97.5%'' @ [CHR 0x0D, CHR 0x0A],
                          errorString = []\<rparr>)
          [\<lparr>part_field = ''image'', part_filename = ''face.png''\<rparr>]) =
     Some (Reply \<lparr>status = 200,
                  body = JObj [(''success'', JBool True),
                               (''result'',
                                JObj [(''label'', JStr ''Fake''),
                                      (''confidence'', JNum (195 / 2)),
                                      (''isFake'', JBool True)])]\<rparr>)
   \<and> snd (analyze_endpoint
          \<lparr>uploadDir = ''/srv/server/uploads'', predictPath = ''/srv/ml_service/predict.py'',
           scannerPath = ''/srv/ml_service/deepfake_scanner.py'',
           websitesPath = ''/srv/websites.txt'',
           resultsPath = ''/srv/ml_service/scan_results.json''\<rparr>
          17
          (\<lambda>args. Exits \<lparr>code = Some 0,
                          dataString = ''[Result] Class: Real'' @ [CHR 0x0A] @ ''[Confidence] 1e400%'' @ [CHR 0x0A],
                          errorString = []\<rparr>)
          [\<lparr>part_field = ''image'', part_filename = ''face.png''\<rparr>]) =
     Some (Reply \<lparr>status = 200,
                  body = JObj [(''success'', JBool True),
                               (''result'',
                                JObj [(''label'', JStr ''Real''),
                                      (''confidence'', JNull),
                                      (''isFake'', JBool False)])]\<rparr>)"
  using analyze_success_shape
    [of "\<lparr>uploadDir = ''/srv/server/uploads'', predictPath = ''/srv/ml_service/predict.py'',
           scannerPath = ''/srv/ml_service/deepfake_scanner.py'',
           websitesPath = ''/srv/websites.txt'',
           resultsPath = ''/srv/ml_service/scan_results.json''\<rparr>"
        17 "[\<lparr>part_field = ''image'', part_filename = ''face.png''\<rparr>]"
        "[WriteFile ''/srv/server/uploads/17-face.png'']"
        "\<lparr>originalname = ''face.png'', path = ''/srv/server/uploads/17-face.png''\<rparr>"
        "\<lambda>args. Exits \<lparr>code = Some 0,
                          dataString = ''Loading model...'' @ [CHR 0x0A] @ ''[Result] Class: Fake '' @ [CHR 0x0D, CHR 0x0A]
                                       @ ''[Confidence] 97.5%'' @ [CHR 0x0D, CHR 0x0A],
                          errorString = []\<rparr>"
        "\<lparr>code = Some 0,
                          dataString = ''Loading model...'' @ [CHR 0x0A] @ ''[Result] Class: Fake '' @ [CHR 0x0D, CHR 0x0A]
                                       @ ''[Confidence] 97.5%'' @ [CHR 0x0D, CHR 0x0A],
                          errorString = []\<rparr>"
        "''Fake ''" "''97.5''"]
    analyze_success_shape
    [of "\<lparr>uploadDir = ''/srv/server/uploads'', predictPath = ''/srv/ml_service/predict.py'',
           scannerPath = ''/srv/ml_service/deepfake_scanner.py'',
           websitesPath = ''/srv/websites.txt'',
           resultsPath = ''/srv/ml_service/scan_results.json''\<rparr>"
        17 "[\<lparr>part_field = ''image'', part_filename = ''face.png''\<rparr>]"
        "[WriteFile ''/srv/server/uploads/17-face.png'']"
        "\<lparr>originalname = ''face.png'', path = ''/srv/server/uploads/17-face.png''\<rparr>"
        "\<lambda>args. Exits \<lparr>code = Some 0,
                          dataString = ''[Result] Class: Real'' @ [CHR 0x0A] @ ''[Confidence] 1e400%'' @ [CHR 0x0A],
                          errorString = []\<rparr>"
        "\<lparr>code = Some 0,
                          dataString = ''[Result] Class: Real'' @ [CHR 0x0A] @ ''[Confidence] 1e400%'' @ [CHR 0x0A],
                          errorString = []\<rparr>"
        "''Real''" "''1e400''"]
    match_example parseFloat_examples
  by simp

end
